theory Spec2Isabelle
  imports Main "HOL-Library.List_Lexorder" "HOL-Library.Char_ord" "HOL-Library.Multiset"
begin

section \<open>Python strings\<close>

text \<open>
  A Python \<open>str\<close> is a sequence of code points. It is modelled as a \<open>string\<close>, each
  \<open>char\<close> standing for the code point of the same number, so the model covers the text
  whose code points lie below 256. The general lemmas below use nothing about a character
  but whether it is white space.

  \<open>str.isspace\<close> holds below 256 for tab, line feed, vertical tab, form feed, carriage
  return, the four separators \<open>0x1C\<close> to \<open>0x1F\<close>, the space, \<open>0x85\<close> and \<open>0xA0\<close>.
\<close>

definition py_isspace :: "char \<Rightarrow> bool" where
  "py_isspace c \<longleftrightarrow>
     c \<in> set [CHR 0x09, CHR 0x0A, CHR 0x0B, CHR 0x0C, CHR 0x0D, CHR 0x1C, CHR 0x1D,
              CHR 0x1E, CHR 0x1F, CHR 0x20, CHR 0x85, CHR 0xA0]"

definition py_lstrip :: "string \<Rightarrow> string" where
  "py_lstrip s = dropWhile py_isspace s"

definition py_rstrip :: "string \<Rightarrow> string" where
  "py_rstrip s = rev (dropWhile py_isspace (rev s))"

text \<open>\<open>s.strip()\<close> removes the white space at both ends.\<close>

definition py_strip :: "string \<Rightarrow> string" where
  "py_strip s = py_rstrip (py_lstrip s)"

text \<open>
  \<open>s.upper()\<close> maps every code point to its capital, which may be more than one code
  point: the sharp s (\<open>0xDF\<close>) becomes \<open>SS\<close>. The capitals of \<open>0xB5\<close> and \<open>0xFF\<close>
  lie beyond 255; these two are left as they are, which no comparison with an ASCII text
  can tell from their real capitals.
\<close>

definition upper_table :: "(char \<times> string) list" where
  "upper_table =
     zip ''abcdefghijklmnopqrstuvwxyz'' (map (\<lambda>c. [c]) ''ABCDEFGHIJKLMNOPQRSTUVWXYZ'') @
     [(CHR 0xDF, ''SS'')] @
     zip [CHR 0xE0, CHR 0xE1, CHR 0xE2, CHR 0xE3, CHR 0xE4, CHR 0xE5, CHR 0xE6, CHR 0xE7,
          CHR 0xE8, CHR 0xE9, CHR 0xEA, CHR 0xEB, CHR 0xEC, CHR 0xED, CHR 0xEE, CHR 0xEF,
          CHR 0xF0, CHR 0xF1, CHR 0xF2, CHR 0xF3, CHR 0xF4, CHR 0xF5, CHR 0xF6,
          CHR 0xF8, CHR 0xF9, CHR 0xFA, CHR 0xFB, CHR 0xFC, CHR 0xFD, CHR 0xFE]
         (map (\<lambda>c. [c])
         [CHR 0xC0, CHR 0xC1, CHR 0xC2, CHR 0xC3, CHR 0xC4, CHR 0xC5, CHR 0xC6, CHR 0xC7,
          CHR 0xC8, CHR 0xC9, CHR 0xCA, CHR 0xCB, CHR 0xCC, CHR 0xCD, CHR 0xCE, CHR 0xCF,
          CHR 0xD0, CHR 0xD1, CHR 0xD2, CHR 0xD3, CHR 0xD4, CHR 0xD5, CHR 0xD6,
          CHR 0xD8, CHR 0xD9, CHR 0xDA, CHR 0xDB, CHR 0xDC, CHR 0xDD, CHR 0xDE])"

definition upper_char :: "char \<Rightarrow> string" where
  "upper_char c = (case map_of upper_table c of Some u \<Rightarrow> u | None \<Rightarrow> [c])"

definition py_upper :: "string \<Rightarrow> string" where
  "py_upper s = concat (map upper_char s)"

definition py_startswith :: "string \<Rightarrow> string \<Rightarrow> bool" where
  "py_startswith s p \<longleftrightarrow> take (length p) s = p"

text \<open>
  \<open>s.split(sep)\<close> for a separator of one character: the pieces between the separators,
  the empty ones too, so the result is never empty.
\<close>

fun py_split :: "char \<Rightarrow> string \<Rightarrow> string list" where
  "py_split sep [] = [[]]"
| "py_split sep (c # cs) =
     (if c = sep then [] # py_split sep cs
      else (case py_split sep cs of
              [] \<Rightarrow> [[c]]
            | piece # pieces \<Rightarrow> (c # piece) # pieces))"

text \<open>\<open>sep.join(xs)\<close>.\<close>

fun py_join :: "string \<Rightarrow> string list \<Rightarrow> string" where
  "py_join sep [] = []"
| "py_join sep [x] = x"
| "py_join sep (x # y # ys) = x @ sep @ py_join sep (y # ys)"

section \<open>Content parser\<close>

text \<open>
  \<open>parse_post_content\<close> returns a dictionary with the keys \<open>text\<close> and \<open>images\<close>;
  the record field for \<open>text\<close> is \<open>post_text\<close>.
\<close>

record parsed =
  post_text :: string
  images :: "string list"

text \<open>The test of the loop: \<open>line_stripped.upper().startswith('IMAGE:')\<close>.\<close>

definition is_image_line :: "string \<Rightarrow> bool" where
  "is_image_line line \<longleftrightarrow> py_startswith (py_upper (py_strip line)) ''IMAGE:''"

text \<open>The file name of an image line: \<open>line_stripped[6:].strip()\<close>.\<close>

definition img_filename :: "string \<Rightarrow> string" where
  "img_filename line = py_strip (drop 6 (py_strip line))"

text \<open>The loop over the lines, with the two lists it appends to.\<close>

fun parse_lines :: "string list \<Rightarrow> string list \<Rightarrow> string list \<Rightarrow> string list \<times> string list" where
  "parse_lines [] imgs text_lines = (imgs, text_lines)"
| "parse_lines (line # lines) imgs text_lines =
     (if is_image_line line
      then parse_lines lines (imgs @ [img_filename line]) text_lines
      else parse_lines lines imgs (text_lines @ [line]))"

definition parse_post_content :: "string \<Rightarrow> parsed" where
  "parse_post_content content =
     (let lines = py_split CHR 0x0A content;
          (imgs, text_lines) = parse_lines lines [] []
      in \<lparr>post_text = py_strip (py_join [CHR 0x0A] text_lines), images = imgs\<rparr>)"

subsection \<open>The parser as the specification words it\<close>







section \<open>Page registry\<close>

text \<open>
  A target of the registry is the dictionary with the keys \<open>page_id\<close>, \<open>token\<close> and
  \<open>name\<close>; \<open>FacebookPoster\<close> is built from it with the same three fields.
\<close>

record page =
  page_id :: string
  token :: string
  name :: string

text \<open>
  What the program prints, kept as the kind of the line and the values it shows. The
  printed text itself is not modelled.
\<close>

datatype message =
    Config_not_found string
  | Invalid_format nat string
  | Env_not_set string
  | Loaded string
  | Image_not_found string
  | Summary nat nat nat nat

text \<open>
  One turn of the loop of \<open>load_facebook_pages\<close>: the target the line adds, if any,
  and what is printed. \<open>os.environ\<close> is a map from names to values, and
  \<open>os.environ.get(env_var, '')\<close> gives the empty string for a name that is not set.
\<close>

definition load_line :: "(string \<rightharpoonup> string) \<Rightarrow> nat \<Rightarrow> string \<Rightarrow> page option \<times> message list" where
  "load_line environ line_num raw =
     (let line = py_strip raw in
      if line = [] \<or> py_startswith line ''#'' then (None, [])
      else
        (case py_split CHR ''|'' line of
           id_part # token_part # parts \<Rightarrow>
             (let pid = py_strip id_part;
                  tok = py_strip token_part;
                  page_name = (case parts of
                                 [] \<Rightarrow> ''Page_'' @ pid
                               | name_part # _ \<Rightarrow> py_strip name_part)
              in if py_startswith tok ''$'' then
                   (let env_var = drop 1 tok;
                        tok = (case environ env_var of None \<Rightarrow> [] | Some v \<Rightarrow> v)
                    in if tok = [] then (None, [Env_not_set env_var])
                       else (Some \<lparr>page_id = pid, token = tok, name = page_name\<rparr>,
                             [Loaded page_name]))
                 else (Some \<lparr>page_id = pid, token = tok, name = page_name\<rparr>,
                       [Loaded page_name]))
         | _ \<Rightarrow> (None, [Invalid_format line_num line])))"

text \<open>
  The loop over the lines of the file, numbered from \<open>line_num\<close>: the targets in the
  order of their lines, and the printed messages.
\<close>

fun load_lines :: "(string \<rightharpoonup> string) \<Rightarrow> nat \<Rightarrow> string list \<Rightarrow> page list \<times> message list" where
  "load_lines environ line_num [] = ([], [])"
| "load_lines environ line_num (raw # raws) =
     (let (p, msgs) = load_line environ line_num raw;
          (pages, out) = load_lines environ (Suc line_num) raws
      in ((case p of None \<Rightarrow> pages | Some pg \<Rightarrow> pg # pages), msgs @ out))"

text \<open>
  The file system gives the lines of the file at a path, or nothing when there is no such
  file.
\<close>

definition load_facebook_pages ::
  "(string \<rightharpoonup> string) \<Rightarrow> (string \<rightharpoonup> string list) \<Rightarrow> string \<Rightarrow> page list \<times> message list" where
  "load_facebook_pages environ read_lines config_file =
     (case read_lines config_file of
        None \<Rightarrow> ([], [Config_not_found config_file])
      | Some raws \<Rightarrow> load_lines environ 1 raws)"

section \<open>Files\<close>

text \<open>
  What the program reads from its surroundings: the environment variables, whether
  \<open>python-docx\<close> could be imported (\<open>DOCX_SUPPORT\<close>), and the file system. Of the file
  system the program uses \<open>os.path.exists\<close>, whether \<open>open\<close> of a path succeeds, the names in a
  directory (in the order the system lists them, which \<open>glob\<close> keeps), the lines of the configuration file, the
  text of a \<open>.txt\<close> file and the paragraphs of a \<open>.docx\<close> file. A read that raises is
  the value \<open>None\<close>.
\<close>

record system =
  os_environ :: "string \<rightharpoonup> string"
  DOCX_SUPPORT :: bool
  path_exists :: "string \<Rightarrow> bool"
  readable :: "string \<Rightarrow> bool"
  listdir :: "string \<Rightarrow> string list"
  file_lines :: "string \<rightharpoonup> string list"
  read_text :: "string \<rightharpoonup> string"
  read_docx :: "string \<rightharpoonup> string list"

definition POSTS_DIR :: string where
  "POSTS_DIR = ''posts''"

definition IMAGES_DIR :: string where
  "IMAGES_DIR = ''images''"

definition CONFIG_FILE :: string where
  "CONFIG_FILE = ''config.txt''"

definition py_endswith :: "string \<Rightarrow> string \<Rightarrow> bool" where
  "py_endswith s p \<longleftrightarrow> py_startswith (rev s) (rev p)"

text \<open>\<open>os.path.join(a, b)\<close> of \<open>posixpath\<close>.\<close>

definition path_join :: "string \<Rightarrow> string \<Rightarrow> string" where
  "path_join a b =
     (if py_startswith b ''/'' then b
      else if a = [] \<or> py_endswith a ''/'' then a @ b
      else a @ ''/'' @ b)"

text \<open>\<open>os.path.basename(p)\<close>: what follows the last slash.\<close>

definition basename :: "string \<Rightarrow> string" where
  "basename p = rev (takeWhile (\<lambda>c. c \<noteq> CHR ''/'') (rev p))"

text \<open>
  \<open>os.path.splitext(p)[1]\<close>: the last dot of the base name and what follows it, when
  a character other than a dot comes before that dot in the base name; else nothing.
\<close>

definition splitext_ext :: "string \<Rightarrow> string" where
  "splitext_ext p =
     (let b = basename p;
          stem = rev (drop 1 (dropWhile (\<lambda>c. c \<noteq> CHR ''.'') (rev b)))
      in if CHR ''.'' \<in> set b \<and> (\<exists>c\<in>set stem. c \<noteq> CHR ''.'')
         then CHR ''.'' # rev (takeWhile (\<lambda>c. c \<noteq> CHR ''.'') (rev b))
         else [])"

text \<open>\<open>s.lower()\<close>: below 256 every capital has one small letter.\<close>

definition lower_char :: "char \<Rightarrow> char" where
  "lower_char c =
     (case map_of (map (\<lambda>(l, u). (hd u, l)) (filter (\<lambda>(l, u). length u = 1) upper_table)) c of
        Some l \<Rightarrow> l
      | None \<Rightarrow> c)"

definition py_lower :: "string \<Rightarrow> string" where
  "py_lower s = map lower_char s"

section \<open>Post loader\<close>

text \<open>
  \<open>glob.glob(os.path.join(d, "*" + ext))\<close>: the names of the directory that end with
  \<open>ext\<close> and do not begin with a dot, each joined to the directory, in the order of
  the listing.
\<close>

definition glob_ext :: "system \<Rightarrow> string \<Rightarrow> string \<Rightarrow> string list" where
  "glob_ext sys d ext =
     map (path_join d)
       (filter (\<lambda>n. \<not> py_startswith n ''.'' \<and> py_endswith n ext) (listdir sys d))"

text \<open>
  \<open>files.sort()\<close> compares strings code point by code point, a proper prefix coming
  first: the order of \<open>string\<close> here.
\<close>

definition get_all_post_files :: "system \<Rightarrow> string \<Rightarrow> string list" where
  "get_all_post_files sys posts_dir =
     (let txt_files = glob_ext sys posts_dir ''.txt'';
          files = txt_files;
          files = (if DOCX_SUPPORT sys then files @ glob_ext sys posts_dir ''.docx'' else files)
      in sort files)"

definition read_text_file :: "system \<Rightarrow> string \<Rightarrow> string option" where
  "read_text_file sys filepath = read_text sys filepath"

definition read_docx_file :: "system \<Rightarrow> string \<Rightarrow> string option" where
  "read_docx_file sys filepath =
     (if \<not> DOCX_SUPPORT sys then None
      else (case read_docx sys filepath of
              None \<Rightarrow> None
            | Some paragraphs \<Rightarrow>
                Some (py_join [CHR 0x0A] (filter (\<lambda>p. py_strip p \<noteq> []) paragraphs))))"

text \<open>A post is the dictionary with the keys \<open>filename\<close>, \<open>text\<close> and \<open>images\<close>.\<close>

record post = parsed +
  filename :: string

definition load_post_from_file :: "system \<Rightarrow> string \<Rightarrow> post option" where
  "load_post_from_file sys filepath =
     (let ext = py_lower (splitext_ext filepath);
          content = (if ext = ''.txt'' then read_text_file sys filepath
                     else if ext = ''.docx'' then read_docx_file sys filepath
                     else None)
      in case content of
           None \<Rightarrow> None
         | Some c \<Rightarrow>
             if c = [] then None
             else (let p = parse_post_content c
                   in if post_text p = [] then None
                      else Some \<lparr>post_text = post_text p, images = images p,
                                 filename = basename filepath\<rparr>))"

subsection \<open>The enumeration as the specification words it\<close>


section \<open>Values of the API\<close>

text \<open>
  \<open>response.json()\<close> gives a Python value: \<open>None\<close>, a truth value, an integer, a
  string, a list, or a dictionary whose keys are strings, kept here in the order of its
  entries. Numbers with a fraction are left out of the model.
\<close>

datatype pyval =
    PNone
  | PBool bool
  | PInt int
  | PStr string
  | PList "pyval list"
  | PDict "(string \<times> pyval) list"

text \<open>The truth value of a Python value, as \<open>if photo_id:\<close> takes it.\<close>

fun py_truthy :: "pyval \<Rightarrow> bool" where
  "py_truthy PNone = False"
| "py_truthy (PBool b) = b"
| "py_truthy (PInt i) = (i \<noteq> 0)"
| "py_truthy (PStr s) = (s \<noteq> [])"
| "py_truthy (PList xs) = (xs \<noteq> [])"
| "py_truthy (PDict kvs) = (kvs \<noteq> [])"

text \<open>
  \<open>repr\<close> of a string. The quote is the apostrophe (\<open>0x27\<close>), or the double quote
  (\<open>0x22\<close>) when the string has an apostrophe and no double quote. The quote and the
  backslash (\<open>0x5C\<close>) are escaped, tab, line feed and carriage return are written
  \<open>\t\<close>, \<open>\n\<close>, \<open>\r\<close>, and every other code point that is not printable is written
  \<open>\xhh\<close>.
\<close>

definition py_isprintable :: "char \<Rightarrow> bool" where
  "py_isprintable c \<longleftrightarrow>
     (let n = (of_char c :: nat)
      in (32 \<le> n \<and> n \<le> 126) \<or> (161 \<le> n \<and> n \<le> 172) \<or> 174 \<le> n)"

definition hex_digit :: "nat \<Rightarrow> char" where
  "hex_digit n = ''0123456789abcdef'' ! (n mod 16)"

definition repr_char :: "char \<Rightarrow> char \<Rightarrow> string" where
  "repr_char quote c =
     (if c = quote \<or> c = CHR 0x5C then [CHR 0x5C, c]
      else if c = CHR 0x09 then [CHR 0x5C, CHR ''t'']
      else if c = CHR 0x0A then [CHR 0x5C, CHR ''n'']
      else if c = CHR 0x0D then [CHR 0x5C, CHR ''r'']
      else if \<not> py_isprintable c
        then [CHR 0x5C, CHR ''x'', hex_digit (of_char c div 16), hex_digit (of_char c mod 16)]
      else [c])"

definition py_repr_str :: "string \<Rightarrow> string" where
  "py_repr_str s =
     (let quote = (if CHR 0x27 \<in> set s \<and> CHR 0x22 \<notin> set s then CHR 0x22 else CHR 0x27)
      in [quote] @ concat (map (repr_char quote) s) @ [quote])"

text \<open>\<open>repr\<close> of an integer: its decimal digits.\<close>

fun digits :: "nat \<Rightarrow> string" where
  "digits n =
     (if n < 10 then [''0123456789'' ! n]
      else digits (n div 10) @ [''0123456789'' ! (n mod 10)])"

definition py_repr_int :: "int \<Rightarrow> string" where
  "py_repr_int i = (if i < 0 then ''-'' @ digits (nat (- i)) else digits (nat i))"

text \<open>\<open>repr\<close> of a value, and \<open>str\<close>, which differs on strings only.\<close>

fun py_repr :: "pyval \<Rightarrow> string" where
  "py_repr PNone = ''None''"
| "py_repr (PBool b) = (if b then ''True'' else ''False'')"
| "py_repr (PInt i) = py_repr_int i"
| "py_repr (PStr s) = py_repr_str s"
| "py_repr (PList xs) = ''['' @ py_join '', '' (map py_repr xs) @ '']''"
| "py_repr (PDict kvs) =
     ''{'' @ py_join '', '' (map (\<lambda>kv. py_repr_str (fst kv) @ '': '' @ py_repr (snd kv)) kvs) @ ''}''"

definition py_str :: "pyval \<Rightarrow> string" where
  "py_str v = (case v of PStr s \<Rightarrow> s | _ \<Rightarrow> py_repr v)"

text \<open>\<open>s.replace(a, b)\<close> for \<open>a\<close> and \<open>b\<close> of one character each.\<close>

definition py_replace :: "char \<Rightarrow> char \<Rightarrow> string \<Rightarrow> string" where
  "py_replace a b s = map (\<lambda>c. if c = a then b else c) s"

section \<open>Network\<close>

text \<open>
  The program meets the outside world where it waits: at an HTTP request of
  \<open>requests\<close> and at \<open>time.sleep\<close>. A request is kept with its URL, its parameters
  or form fields, and the files it sends (field name and path). What comes back is one of:
  the user interrupts the program while it waits (\<open>KeyboardInterrupt\<close>); the request or
  \<open>response.json()\<close> raises an exception, with the text of \<open>str(e)\<close>; or there is a
  response, with its status code and the value its body decodes to.
\<close>

datatype request =
    Http_get string "(string \<times> string) list"
  | Http_post string "(string \<times> string) list" "(string \<times> string) list"
  | Sleep nat

datatype reply =
    Interrupt
  | Raises string
  | Returns nat pyval

text \<open>
  The world fixes what the \<open>n\<close>-th wait of the run meets, whatever is asked, and keeps
  the requests made so far and the messages printed so far.
\<close>

record world =
  net :: "nat \<Rightarrow> reply"
  sent :: "request list"
  printed :: "message list"

definition call :: "request \<Rightarrow> world \<Rightarrow> reply \<times> world" where
  "call r w = (net w (length (sent w)), w\<lparr>sent := sent w @ [r]\<rparr>)"

definition print :: "message list \<Rightarrow> world \<Rightarrow> world" where
  "print msgs w = w\<lparr>printed := printed w @ msgs\<rparr>"

text \<open>
  The exceptions that leave a function: the interrupt, \<open>sys.exit\<close>, and the exceptions
  of the class \<open>Exception\<close> (here a \<open>TypeError\<close> or an \<open>AttributeError\<close>), which
  the program tells apart no further.
\<close>

datatype exn =
    KeyboardInterrupt
  | SystemExit nat
  | Exception

section \<open>Publisher\<close>

definition GRAPH_API_VERSION :: string where
  "GRAPH_API_VERSION = ''v18.0''"

definition GRAPH_API_BASE :: string where
  "GRAPH_API_BASE = ''https://graph.facebook.com/'' @ GRAPH_API_VERSION"

text \<open>
  \<open>test_connection\<close>. Everything after the request is inside \<open>try\<close>: with status 200
  the result is \<open>True\<close> unless reading the fields raises, which it does when the body
  is not a dictionary, and when \<open>fan_count\<close> is a value that the format \<open>{fans:,}\<close>
  refuses (anything but a number); with any other status the result is \<open>False\<close>.
\<close>

definition test_connection :: "page \<Rightarrow> world \<Rightarrow> (exn + bool) \<times> world" where
  "test_connection self w =
     (let url = GRAPH_API_BASE @ ''/'' @ page_id self;
          params = [(''fields'', ''name,fan_count''), (''access_token'', token self)];
          (r, w) = call (Http_get url params) w
      in case r of
           Interrupt \<Rightarrow> (Inl KeyboardInterrupt, w)
         | Raises e \<Rightarrow> (Inr False, w)
         | Returns status_code data \<Rightarrow>
             if status_code = 200 then
               (case data of
                  PDict d \<Rightarrow>
                    (case (case map_of d ''fan_count'' of None \<Rightarrow> PInt 0 | Some v \<Rightarrow> v) of
                       PInt fans \<Rightarrow> (Inr True, w)
                     | PBool fans \<Rightarrow> (Inr True, w)
                     | _ \<Rightarrow> (Inr False, w))
                | _ \<Rightarrow> (Inr False, w))
             else (Inr False, w))"

text \<open>
  \<open>upload_photo\<close> gives the identifier of the photo, or \<open>None\<close>. The request and all
  that reads the response are inside \<open>try\<close>: a result that is not a dictionary makes
  \<open>'id' in result\<close>, \<open>result['id']\<close> or \<open>result.get\<close> raise, which gives \<open>None\<close>,
  as a dictionary without \<open>id\<close> does.
\<close>

definition upload_photo :: "system \<Rightarrow> page \<Rightarrow> string \<Rightarrow> world \<Rightarrow> (exn + pyval option) \<times> world" where
  "upload_photo sys self image_path w =
     (let url = GRAPH_API_BASE @ ''/'' @ page_id self @ ''/photos''
      in if \<not> path_exists sys image_path then (Inr None, w)
         else if \<not> readable sys image_path then (Inr None, w)
         else
           (let files = [(''source'', image_path)];
                data = [(''access_token'', token self), (''published'', ''false'')];
                (r, w) = call (Http_post url data files) w
            in case r of
                 Interrupt \<Rightarrow> (Inl KeyboardInterrupt, w)
               | Raises e \<Rightarrow> (Inr None, w)
               | Returns status_code result \<Rightarrow>
                   (case result of
                      PDict d \<Rightarrow>
                        (case map_of d ''id'' of
                           Some photo_id \<Rightarrow> (Inr (Some photo_id), w)
                         | None \<Rightarrow> (Inr None, w))
                    | _ \<Rightarrow> (Inr None, w))))"

definition post_text_only :: "page \<Rightarrow> string \<Rightarrow> world \<Rightarrow> (exn + pyval) \<times> world" where
  "post_text_only self message w =
     (let url = GRAPH_API_BASE @ ''/'' @ page_id self @ ''/feed'';
          data = [(''message'', message), (''access_token'', token self)];
          (r, w) = call (Http_post url data []) w
      in case r of
           Interrupt \<Rightarrow> (Inl KeyboardInterrupt, w)
         | Raises e \<Rightarrow> (Inr (PDict [(''error'', PDict [(''message'', PStr e)])]), w)
         | Returns status_code result \<Rightarrow> (Inr result, w))"

text \<open>
  The field \<open>attached_media\<close> of \<open>post_with_photos\<close>:
  \<open>str(attached_media).replace("'", '"')\<close>.
\<close>

definition attached_media_field :: "pyval list \<Rightarrow> string" where
  "attached_media_field photo_ids =
     (let attached_media =
            (case photo_ids of
               [photo_id] \<Rightarrow> [PDict [(''media_fbid'', photo_id)]]
             | _ \<Rightarrow> map (\<lambda>pid. PDict [(''media_fbid'', pid)]) photo_ids)
      in py_replace CHR 0x27 CHR 0x22 (py_str (PList attached_media)))"

definition post_with_photos :: "page \<Rightarrow> string \<Rightarrow> pyval list \<Rightarrow> world \<Rightarrow> (exn + pyval) \<times> world" where
  "post_with_photos self message photo_ids w =
     (let url = GRAPH_API_BASE @ ''/'' @ page_id self @ ''/feed'';
          data = [(''message'', message),
                  (''attached_media'', attached_media_field photo_ids),
                  (''access_token'', token self)];
          (r, w) = call (Http_post url data []) w
      in case r of
           Interrupt \<Rightarrow> (Inl KeyboardInterrupt, w)
         | Raises e \<Rightarrow> (Inr (PDict [(''error'', PDict [(''message'', PStr e)])]), w)
         | Returns status_code result \<Rightarrow> (Inr result, w))"

text \<open>The loop of \<open>post\<close> over the image paths, with the list it appends to.\<close>

fun upload_all ::
  "system \<Rightarrow> page \<Rightarrow> string list \<Rightarrow> pyval list \<Rightarrow> world \<Rightarrow> (exn + pyval list) \<times> world" where
  "upload_all sys self [] photo_ids w = (Inr photo_ids, w)"
| "upload_all sys self (img_path # image_paths) photo_ids w =
     (case upload_photo sys self img_path w of
        (Inl e, w) \<Rightarrow> (Inl e, w)
      | (Inr None, w) \<Rightarrow> upload_all sys self image_paths photo_ids w
      | (Inr (Some photo_id), w) \<Rightarrow>
          if py_truthy photo_id
          then upload_all sys self image_paths (photo_ids @ [photo_id]) w
          else upload_all sys self image_paths photo_ids w)"

text \<open>
  What \<open>post\<close> returns: the dictionary with \<open>success\<close> true, \<open>post_id\<close> and
  \<open>url\<close>, or the one with \<open>success\<close> false and \<open>error\<close>.
\<close>

datatype outcome =
    Success pyval string
  | Failure pyval

text \<open>
  The reading of the result in \<open>post\<close>, which is not inside \<open>try\<close>. On a dictionary
  it tests the key \<open>id\<close>, then reads \<open>error\<close> and, from it, \<open>message\<close>;
  \<open>.get\<close> on an \<open>error\<close> that is not a dictionary raises \<open>AttributeError\<close>. On a
  result that is not a dictionary, \<open>'id' in result\<close> raises \<open>TypeError\<close>, or
  \<open>result['id']\<close> does, or \<open>result.get\<close> raises \<open>AttributeError\<close>.
\<close>

definition check_result :: "pyval \<Rightarrow> exn + outcome" where
  "check_result result =
     (case result of
        PDict d \<Rightarrow>
          (case map_of d ''id'' of
             Some post_id \<Rightarrow> Inr (Success post_id (''https://facebook.com/'' @ py_str post_id))
           | None \<Rightarrow>
               (case (case map_of d ''error'' of None \<Rightarrow> PDict [] | Some e \<Rightarrow> e) of
                  PDict e \<Rightarrow>
                    Inr (Failure (case map_of e ''message'' of
                                    None \<Rightarrow> PStr ''Unknown error''
                                  | Some m \<Rightarrow> m))
                | _ \<Rightarrow> Inl Exception))
      | _ \<Rightarrow> Inl Exception)"

definition post :: "system \<Rightarrow> page \<Rightarrow> string \<Rightarrow> string list option \<Rightarrow> world \<Rightarrow> (exn + outcome) \<times> world" where
  "post sys self message image_paths w =
     (case (case image_paths of
              None \<Rightarrow> (Inr [], w)
            | Some paths \<Rightarrow> upload_all sys self paths [] w) of
        (Inl e, w) \<Rightarrow> (Inl e, w)
      | (Inr photo_ids, w) \<Rightarrow>
          (case (if photo_ids \<noteq> [] then post_with_photos self message photo_ids w
                 else post_text_only self message w) of
             (Inl e, w) \<Rightarrow> (Inl e, w)
           | (Inr result, w) \<Rightarrow> (check_result result, w)))"

section \<open>Orchestrator\<close>

text \<open>The loop of \<open>main\<close> that tests the connection of every target.\<close>

fun test_all :: "page list \<Rightarrow> page list \<Rightarrow> world \<Rightarrow> (exn + page list) \<times> world" where
  "test_all [] valid_pages w = (Inr valid_pages, w)"
| "test_all (pg # pages) valid_pages w =
     (case test_connection pg w of
        (Inl e, w) \<Rightarrow> (Inl e, w)
      | (Inr ok, w) \<Rightarrow> test_all pages (if ok then valid_pages @ [pg] else valid_pages) w)"

text \<open>The loop that resolves the image names of a post against the images directory.\<close>

fun resolve_images :: "system \<Rightarrow> string list \<Rightarrow> string list \<times> message list" where
  "resolve_images sys [] = ([], [])"
| "resolve_images sys (img_file # imgs) =
     (let img_path = path_join IMAGES_DIR img_file;
          (image_paths, msgs) = resolve_images sys imgs
      in if path_exists sys img_path then (img_path # image_paths, msgs)
         else (image_paths, Image_not_found img_file # msgs))"

text \<open>
  The loop over the targets for one post, with the two counters, and the pause after
  every post.
\<close>

fun post_to_pages ::
  "system \<Rightarrow> post \<Rightarrow> string list \<Rightarrow> page list \<Rightarrow> nat \<times> nat \<Rightarrow> world \<Rightarrow> (exn + nat \<times> nat) \<times> world" where
  "post_to_pages sys p image_paths [] totals w = (Inr totals, w)"
| "post_to_pages sys p image_paths (poster # valid_pages) totals w =
     (case post sys poster (post_text p) (if image_paths \<noteq> [] then Some image_paths else None) w of
        (Inl e, w) \<Rightarrow> (Inl e, w)
      | (Inr result, w) \<Rightarrow>
          (let totals = (case result of
                           Success _ _ \<Rightarrow> (fst totals + 1, snd totals)
                         | Failure _ \<Rightarrow> (fst totals, snd totals + 1));
               (r, w) = call (Sleep 2) w
           in case r of
                Interrupt \<Rightarrow> (Inl KeyboardInterrupt, w)
              | _ \<Rightarrow> post_to_pages sys p image_paths valid_pages totals w))"

fun publish_all ::
  "system \<Rightarrow> post list \<Rightarrow> page list \<Rightarrow> nat \<times> nat \<Rightarrow> world \<Rightarrow> (exn + nat \<times> nat) \<times> world" where
  "publish_all sys [] valid_pages totals w = (Inr totals, w)"
| "publish_all sys (p # posts) valid_pages totals w =
     (let (image_paths, msgs) = resolve_images sys (images p);
          w = print msgs w
      in case post_to_pages sys p image_paths valid_pages totals w of
           (Inl e, w) \<Rightarrow> (Inl e, w)
         | (Inr totals, w) \<Rightarrow> publish_all sys posts valid_pages totals w)"

text \<open>
  \<open>main\<close>. \<open>sys.exit(1)\<close> raises \<open>SystemExit\<close>. Creating the images directory when
  it is missing changes nothing that the program reads later.
\<close>

definition main :: "system \<Rightarrow> world \<Rightarrow> (exn + unit) \<times> world" where
  "main sys w =
     (if \<not> path_exists sys POSTS_DIR then (Inl (SystemExit 1), w)
      else
        (let (pages, msgs) = load_facebook_pages (os_environ sys) (file_lines sys) CONFIG_FILE;
             w = print msgs w
         in if pages = [] then (Inl (SystemExit 1), w)
            else
              (case test_all pages [] w of
                 (Inl e, w) \<Rightarrow> (Inl e, w)
               | (Inr valid_pages, w) \<Rightarrow>
                   if valid_pages = [] then (Inl (SystemExit 1), w)
                   else
                     (let post_files = get_all_post_files sys POSTS_DIR
                      in if post_files = [] then (Inl (SystemExit 1), w)
                         else
                           (let posts = List.map_filter (load_post_from_file sys) post_files
                            in if posts = [] then (Inl (SystemExit 1), w)
                               else
                                 (case publish_all sys posts valid_pages (0, 0) w of
                                    (Inl e, w) \<Rightarrow> (Inl e, w)
                                  | (Inr (total_success, total_failed), w) \<Rightarrow>
                                      (let w = print [Summary (length posts) (length valid_pages)
                                                        total_success total_failed] w
                                       in if total_failed > 0 then (Inl (SystemExit 1), w)
                                          else (Inr (), w))))))))"

text \<open>
  The block under \<open>__main__\<close>: the exit status of the process. \<open>SystemExit\<close> passes
  both handlers; the interrupt ends the process with status 0, any other exception with
  status 1.
\<close>

definition run :: "system \<Rightarrow> world \<Rightarrow> nat \<times> world" where
  "run sys w =
     (case main sys w of
        (Inr u, w) \<Rightarrow> (0, w)
      | (Inl KeyboardInterrupt, w) \<Rightarrow> (0, w)
      | (Inl (SystemExit status), w) \<Rightarrow> (status, w)
      | (Inl Exception, w) \<Rightarrow> (1, w))"

text \<open>The world at the start of a run: nothing sent, nothing printed.\<close>

definition start :: "(nat \<Rightarrow> reply) \<Rightarrow> world" where
  "start replies = \<lparr>net = replies, sent = [], printed = []\<rparr>"

subsection \<open>The wire format as the specification words it\<close>





section \<open>Facts about strings\<close>

lemma py_split_not_Nil: "py_split sep s \<noteq> []"
  by (induction s) (auto split: list.splits)

lemma py_join_Cons:
  "ys \<noteq> [] \<Longrightarrow> py_join sep (x # ys) = x @ sep @ py_join sep ys"
  by (cases ys) simp_all

lemma py_join_split: "py_join [sep] (py_split sep s) = s"
proof (induction s)
  case Nil
  show ?case by simp
next
  case (Cons c cs)
  show ?case
  proof (cases "c = sep")
    case True
    with Cons show ?thesis by (simp add: py_join_Cons py_split_not_Nil)
  next
    case False
    obtain piece pieces where sp: "py_split sep cs = piece # pieces"
      using py_split_not_Nil [of sep cs] by (cases "py_split sep cs") auto
    from Cons sp have "py_join [sep] (piece # pieces) = cs" by simp
    then have "py_join [sep] ((c # piece) # pieces) = c # cs"
      by (cases pieces) simp_all
    with False sp show ?thesis by simp
  qed
qed

lemma py_rstrip_Cons:
  "py_rstrip (c # cs) = (if \<forall>x\<in>set (c # cs). py_isspace x then [] else c # py_rstrip cs)"
  by (auto simp: py_rstrip_def dropWhile_append)

lemma py_rstrip_Nil: "py_rstrip [] = []"
  by (simp add: py_rstrip_def)

lemma py_lstrip_all_space: "\<forall>x\<in>set s. py_isspace x \<Longrightarrow> py_lstrip s = []"
  by (simp add: py_lstrip_def)

lemma py_lstrip_Cons:
  "py_lstrip (c # cs) = (if py_isspace c then py_lstrip cs else c # cs)"
  by (simp add: py_lstrip_def)

lemma py_lstrip_Nil: "py_lstrip [] = []"
  by (simp add: py_lstrip_def)

lemma py_lstrip_rstrip: "py_lstrip (py_rstrip s) = py_rstrip (py_lstrip s)"
proof (induction s)
  case Nil
  show ?case by (simp add: py_rstrip_Nil py_lstrip_Nil)
next
  case (Cons c cs)
  show ?case
  proof (cases "\<forall>x\<in>set (c # cs). py_isspace x")
    case True
    then have "py_lstrip (c # cs) = []" by (rule py_lstrip_all_space)
    with True show ?thesis
      by (simp add: py_rstrip_Cons py_rstrip_Nil py_lstrip_Nil)
  next
    case False
    with Cons show ?thesis
      by (auto simp: py_rstrip_Cons py_lstrip_Cons)
  qed
qed

lemma py_lstrip_idem: "py_lstrip (py_lstrip s) = py_lstrip s"
  by (simp add: py_lstrip_def dropWhile_idem)

lemma py_rstrip_idem: "py_rstrip (py_rstrip s) = py_rstrip s"
  by (simp add: py_rstrip_def dropWhile_idem)

lemma py_strip_idem: "py_strip (py_strip s) = py_strip s"
  by (simp add: py_strip_def py_lstrip_rstrip py_lstrip_idem py_rstrip_idem)

lemma lines_lstrip:
  "l \<in> set (py_split sep (py_lstrip s)) \<Longrightarrow>
     \<exists>l'\<in>set (py_split sep s). py_lstrip l = py_lstrip l'"
proof (induction s)
  case Nil
  then show ?case by (simp add: py_lstrip_def)
next
  case (Cons c cs)
  show ?case
  proof (cases "py_isspace c")
    case False
    with Cons.prems show ?thesis by (auto simp: py_lstrip_def)
  next
    case True
    with Cons.prems have "l \<in> set (py_split sep (py_lstrip cs))"
      by (simp add: py_lstrip_def)
    then obtain l' where l': "l' \<in> set (py_split sep cs)" "py_lstrip l = py_lstrip l'"
      using Cons.IH by blast
    obtain piece pieces where sp: "py_split sep cs = piece # pieces"
      using py_split_not_Nil [of sep cs] by (cases "py_split sep cs") auto
    show ?thesis
    proof (cases "c = sep")
      case True
      with l' show ?thesis by auto
    next
      case False
      show ?thesis
      proof (cases "l' = piece")
        case True
        have "py_lstrip (c # piece) = py_lstrip piece"
          using \<open>py_isspace c\<close> by (simp add: py_lstrip_def)
        with True l' False sp show ?thesis by auto
      next
        case ne: False
        with l' sp have "l' \<in> set pieces" by auto
        with False sp l' show ?thesis by auto
      qed
    qed
  qed
qed

lemma py_split_snoc:
  "py_split sep (s @ [c]) =
     (if c = sep then py_split sep s @ [[]]
      else butlast (py_split sep s) @ [last (py_split sep s) @ [c]])"
proof (induction s)
  case Nil
  show ?case by simp
next
  case (Cons d ds)
  obtain piece pieces where sp: "py_split sep ds = piece # pieces"
    using py_split_not_Nil [of sep ds] by (cases "py_split sep ds") auto
  show ?case
    using Cons sp by (auto simp: py_split_not_Nil split: list.splits)
qed

lemma py_split_rev: "py_split sep (rev s) = rev (map rev (py_split sep s))"
proof (induction s)
  case Nil
  show ?case by simp
next
  case (Cons c cs)
  obtain piece pieces where sp: "py_split sep cs = piece # pieces"
    using py_split_not_Nil [of sep cs] by (cases "py_split sep cs") auto
  show ?case
    using Cons sp by (simp add: py_split_snoc)
qed

lemma lines_rstrip:
  assumes "l \<in> set (py_split sep (py_rstrip s))"
  shows "\<exists>l'\<in>set (py_split sep s). py_rstrip l = py_rstrip l'"
proof -
  have "py_rstrip s = rev (py_lstrip (rev s))"
    by (simp add: py_rstrip_def py_lstrip_def)
  with assms have "rev l \<in> set (py_split sep (py_lstrip (rev s)))"
    by (auto simp: py_split_rev)
  then obtain m where m: "m \<in> set (py_split sep (rev s))" "py_lstrip (rev l) = py_lstrip m"
    using lines_lstrip by blast
  from m(1) have "rev m \<in> set (py_split sep s)"
    by (auto simp: py_split_rev)
  moreover from m(2) have "py_rstrip l = py_rstrip (rev m)"
    by (simp add: py_rstrip_def py_lstrip_def)
  ultimately show ?thesis by blast
qed

lemma lines_strip:
  assumes "l \<in> set (py_split sep (py_strip s))"
  shows "\<exists>l'\<in>set (py_split sep s). py_strip l = py_strip l'"
proof -
  from assms obtain l1 where l1: "l1 \<in> set (py_split sep (py_lstrip s))" "py_rstrip l = py_rstrip l1"
    unfolding py_strip_def using lines_rstrip by blast
  from l1(1) obtain l2 where l2: "l2 \<in> set (py_split sep s)" "py_lstrip l1 = py_lstrip l2"
    using lines_lstrip by blast
  have "py_strip l = py_lstrip (py_rstrip l)" by (simp add: py_strip_def py_lstrip_rstrip)
  also have "\<dots> = py_rstrip (py_lstrip l1)" using l1(2) by (simp add: py_lstrip_rstrip)
  also have "\<dots> = py_strip l2" using l2(2) by (simp add: py_strip_def)
  finally show ?thesis using l2(1) by blast
qed

lemma py_split_no_sep: "l \<in> set (py_split sep s) \<Longrightarrow> sep \<notin> set l"
proof (induction s arbitrary: l)
  case Nil
  then show ?case by simp
next
  case (Cons c cs)
  obtain piece pieces where sp: "py_split sep cs = piece # pieces"
    using py_split_not_Nil [of sep cs] by (cases "py_split sep cs") auto
  show ?case
  proof (cases "c = sep")
    case True
    with Cons show ?thesis by auto
  next
    case False
    with Cons.prems sp have "l = c # piece \<or> l \<in> set pieces" by auto
    with Cons.IH sp False show ?thesis by auto
  qed
qed

lemma py_split_no_sep_id: "sep \<notin> set l \<Longrightarrow> py_split sep l = [l]"
  by (induction l) auto

lemma py_split_append:
  "sep \<notin> set l \<Longrightarrow> py_split sep (l @ sep # s) = l # py_split sep s"
  by (induction l) auto

lemma py_split_join:
  "ls \<noteq> [] \<Longrightarrow> \<forall>l\<in>set ls. sep \<notin> set l \<Longrightarrow> py_split sep (py_join [sep] ls) = ls"
proof (induction ls)
  case Nil
  then show ?case by simp
next
  case (Cons l ls)
  show ?case
  proof (cases ls)
    case Nil
    with Cons.prems show ?thesis by (simp add: py_split_no_sep_id)
  next
    case (Cons m ms)
    with Cons.prems Cons.IH show ?thesis by (simp add: py_split_append)
  qed
qed

lemma is_image_line_strip:
  "py_strip l = py_strip l' \<Longrightarrow> is_image_line l = is_image_line l'"
  by (simp add: is_image_line_def)

lemma not_image_line_Nil: "\<not> is_image_line []"
  by (simp add: is_image_line_def py_strip_def py_lstrip_def py_rstrip_def py_upper_def py_startswith_def)

text \<open>The definitions that evaluate the string functions on a given text.\<close>

lemmas str_eval = py_strip_def py_lstrip_def py_rstrip_def py_isspace_def py_startswith_def

section \<open>Facts about the content parser\<close>

lemma parse_lines_eq:
  "parse_lines lines imgs text_lines =
     (imgs @ map img_filename (filter is_image_line lines),
      text_lines @ filter (\<lambda>l. \<not> is_image_line l) lines)"
  by (induction lines arbitrary: imgs text_lines) simp_all

lemma parse_post_content_eq:
  "parse_post_content content =
     \<lparr>post_text = py_strip (py_join [CHR 0x0A]
                    (filter (\<lambda>l. \<not> is_image_line l) (py_split CHR 0x0A content))),
      images = map img_filename (filter is_image_line (py_split CHR 0x0A content))\<rparr>"
  by (simp add: parse_post_content_def parse_lines_eq Let_def)















lemma parse_non_directive:
  assumes "\<forall>l\<in>set (py_split CHR 0x0A content). \<not> is_image_line l"
  shows "parse_post_content content = \<lparr>post_text = py_strip content, images = []\<rparr>"
proof -
  from assms have "filter (\<lambda>l. \<not> is_image_line l) (py_split CHR 0x0A content) = py_split CHR 0x0A content"
    and "filter is_image_line (py_split CHR 0x0A content) = []"
    by (simp_all add: filter_empty_conv)
  then show ?thesis
    by (simp add: parse_post_content_eq py_join_split)
qed




lemma body_lines_not_image:
  assumes "l \<in> set (py_split CHR 0x0A (post_text (parse_post_content content)))"
  shows "\<not> is_image_line l"
proof -
  let ?N = "filter (\<lambda>l. \<not> is_image_line l) (py_split CHR 0x0A content)"
  from assms have "l \<in> set (py_split CHR 0x0A (py_strip (py_join [CHR 0x0A] ?N)))"
    by (simp add: parse_post_content_eq)
  then obtain l' where l': "l' \<in> set (py_split CHR 0x0A (py_join [CHR 0x0A] ?N))"
      "py_strip l = py_strip l'"
    using lines_strip by blast
  have "\<not> is_image_line l'"
  proof (cases "?N = []")
    case True
    with l'(1) show ?thesis by (simp add: not_image_line_Nil)
  next
    case False
    have "\<forall>l\<in>set ?N. CHR 0x0A \<notin> set l"
      using py_split_no_sep by auto
    with False have "py_split CHR 0x0A (py_join [CHR 0x0A] ?N) = ?N"
      by (rule py_split_join)
    with l'(1) show ?thesis by auto
  qed
  with l'(2) show ?thesis using is_image_line_strip by blast
qed

text \<open>
  C10. Parsing the body that the parser produced gives that body again, with no image:
  no line of a produced body is an image line, and trimming twice is trimming once.
\<close>

theorem parse_post_content_idem:
  "parse_post_content (post_text (parse_post_content content)) =
     \<lparr>post_text = post_text (parse_post_content content), images = []\<rparr>"
proof -
  let ?b = "post_text (parse_post_content content)"
  have "\<forall>l\<in>set (py_split CHR 0x0A ?b). \<not> is_image_line l"
    using body_lines_not_image by blast
  then have "parse_post_content ?b = \<lparr>post_text = py_strip ?b, images = []\<rparr>"
    by (rule parse_non_directive)
  moreover have "py_strip ?b = ?b"
    by (simp add: parse_post_content_eq py_strip_idem)
  ultimately show ?thesis by simp
qed

section \<open>Facts about the page registry\<close>

lemma load_line_fields:
  assumes "py_split CHR ''|'' (py_strip raw) = id_part # token_part # parts"
    and "\<not> py_startswith (py_strip raw) ''#''"
  shows "load_line environ n raw =
     (let page_name = (case parts of [] \<Rightarrow> ''Page_'' @ py_strip id_part
                       | name_part # _ \<Rightarrow> py_strip name_part)
      in if py_startswith (py_strip token_part) ''$'' then
           (case environ (drop 1 (py_strip token_part)) of
              None \<Rightarrow> (None, [Env_not_set (drop 1 (py_strip token_part))])
            | Some v \<Rightarrow>
                if v = [] then (None, [Env_not_set (drop 1 (py_strip token_part))])
                else (Some \<lparr>page_id = py_strip id_part, token = v, name = page_name\<rparr>,
                      [Loaded page_name]))
         else (Some \<lparr>page_id = py_strip id_part, token = py_strip token_part, name = page_name\<rparr>,
               [Loaded page_name]))"
proof -
  from assms(1) have "py_strip raw \<noteq> []" by auto
  with assms show ?thesis
    by (simp add: load_line_def Let_def split: option.splits)
qed



lemma load_line_env_empty:
  assumes "py_split CHR ''|'' (py_strip raw) = id_part # token_part # parts"
    and "\<not> py_startswith (py_strip raw) ''#''"
    and "py_startswith (py_strip token_part) ''$''"
    and "environ (drop 1 (py_strip token_part)) = None \<or> environ (drop 1 (py_strip token_part)) = Some []"
  shows "load_line environ n raw = (None, [Env_not_set (drop 1 (py_strip token_part))])"
proof -
  from assms show ?thesis
    by (auto simp: load_line_fields Let_def)
qed

lemma load_line_env_value:
  assumes "py_split CHR ''|'' (py_strip raw) = id_part # token_part # parts"
    and "\<not> py_startswith (py_strip raw) ''#''"
    and "py_startswith (py_strip token_part) ''$''"
    and "environ (drop 1 (py_strip token_part)) = Some v" and "v \<noteq> []"
  shows "load_line environ n raw =
           (Some \<lparr>page_id = py_strip id_part, token = v,
                  name = (case parts of [] \<Rightarrow> ''Page_'' @ py_strip id_part
                          | name_part # _ \<Rightarrow> py_strip name_part)\<rparr>,
            [Loaded (case parts of [] \<Rightarrow> ''Page_'' @ py_strip id_part
                          | name_part # _ \<Rightarrow> py_strip name_part)])"
proof -
  from assms show ?thesis
    by (auto simp: load_line_fields Let_def)
qed

lemma load_line_pages_line_num: "fst (load_line environ n raw) = fst (load_line environ m raw)"
  by (simp add: load_line_def Let_def split: list.splits option.splits)

lemma load_lines_pages_line_num: "fst (load_lines environ n raws) = fst (load_lines environ m raws)"
proof (induction raws arbitrary: n m)
  case Nil
  show ?case by simp
next
  case (Cons raw raws)
  have "fst (load_lines environ n (raw # raws)) =
      (case fst (load_line environ n raw) of None \<Rightarrow> fst (load_lines environ (Suc n) raws)
       | Some pg \<Rightarrow> pg # fst (load_lines environ (Suc n) raws))" for n
    by (simp add: split_beta Let_def split: option.splits)
  with Cons [of "Suc n" "Suc m"] load_line_pages_line_num [of environ n raw m]
  show ?case by metis
qed


lemma load_line_env_unset_empty:
  "load_line (environ(nm \<mapsto> [])) n raw = load_line (environ(nm := None)) n raw"
  by (auto simp: load_line_def Let_def split: list.splits option.splits)

lemma load_lines_env_unset_empty:
  "load_lines (environ(nm \<mapsto> [])) n raws = load_lines (environ(nm := None)) n raws"
  by (induction raws arbitrary: n) (simp_all add: load_line_env_unset_empty)


lemma split_example: "py_split CHR ''|'' (py_strip ''123|$TOKEN|MyPage'') = [''123'', ''$TOKEN'', ''MyPage'']"
  by (simp add: str_eval)



text \<open>
  C6, as the code has it. On a line whose credential field begins with \<open>$\<close>, the rest
  of the field names an environment variable. When the variable has a value that is not
  empty, the value is the credential of the target. When it is unset or empty, the line
  gives no target and the warning is printed; the lines after it give the targets they
  would give without it.
\<close>

theorem env_credential:
  assumes "py_split CHR ''|'' (py_strip raw) = id_part # token_part # parts"
    and "\<not> py_startswith (py_strip raw) ''#''"
    and "py_startswith (py_strip token_part) ''$''"
  shows "(\<forall>v. environ (drop 1 (py_strip token_part)) = Some v \<and> v \<noteq> [] \<longrightarrow>
            load_line environ n raw =
              (Some \<lparr>page_id = py_strip id_part, token = v,
                     name = (case parts of [] \<Rightarrow> ''Page_'' @ py_strip id_part
                             | name_part # _ \<Rightarrow> py_strip name_part)\<rparr>,
               [Loaded (case parts of [] \<Rightarrow> ''Page_'' @ py_strip id_part
                        | name_part # _ \<Rightarrow> py_strip name_part)])) \<and>
         (environ (drop 1 (py_strip token_part)) = None \<or>
          environ (drop 1 (py_strip token_part)) = Some [] \<longrightarrow>
            load_line environ n raw = (None, [Env_not_set (drop 1 (py_strip token_part))]) \<and>
            load_lines environ n (raw # raws) =
              (fst (load_lines environ m raws),
               Env_not_set (drop 1 (py_strip token_part)) # snd (load_lines environ (Suc n) raws)))"
proof (intro conjI allI impI)
  fix v
  assume "environ (drop 1 (py_strip token_part)) = Some v \<and> v \<noteq> []"
  with assms show "load_line environ n raw =
              (Some \<lparr>page_id = py_strip id_part, token = v,
                     name = (case parts of [] \<Rightarrow> ''Page_'' @ py_strip id_part
                             | name_part # _ \<Rightarrow> py_strip name_part)\<rparr>,
               [Loaded (case parts of [] \<Rightarrow> ''Page_'' @ py_strip id_part
                        | name_part # _ \<Rightarrow> py_strip name_part)])"
    using load_line_env_value by blast
next
  assume e: "environ (drop 1 (py_strip token_part)) = None \<or>
          environ (drop 1 (py_strip token_part)) = Some []"
  with assms show l: "load_line environ n raw = (None, [Env_not_set (drop 1 (py_strip token_part))])"
    by (rule load_line_env_empty)
  have "fst (load_lines environ (Suc n) raws) = fst (load_lines environ m raws)"
    by (rule load_lines_pages_line_num)
  with l show "load_lines environ n (raw # raws) =
              (fst (load_lines environ m raws),
               Env_not_set (drop 1 (py_strip token_part)) # snd (load_lines environ (Suc n) raws))"
    by (simp add: split_beta)
qed

theorem env_credential_witness:
  "load_line [''TOKEN'' \<mapsto> ''abc''] 1 ''123|$TOKEN|MyPage'' =
     (Some \<lparr>page_id = ''123'', token = ''abc'', name = ''MyPage''\<rparr>, [Loaded ''MyPage'']) \<and>
   load_line Map.empty 1 ''123|$TOKEN|MyPage'' = (None, [Env_not_set ''TOKEN'']) \<and>
   load_lines Map.empty 1 [''123|$TOKEN|MyPage'', ''456|secret''] =
     ([\<lparr>page_id = ''456'', token = ''secret'', name = ''Page_456''\<rparr>],
      [Env_not_set ''TOKEN'', Loaded ''Page_456''])"
proof -
  have sp: "py_split CHR ''|'' (py_strip ''123|$TOKEN|MyPage'') = ''123'' # ''$TOKEN'' # [''MyPage'']"
    by (simp add: str_eval)
  have nc: "\<not> py_startswith (py_strip ''123|$TOKEN|MyPage'') ''#''"
    by (simp add: str_eval)
  have d: "py_startswith (py_strip ''$TOKEN'') ''$''"
    by (simp add: str_eval)
  have v: "drop 1 (py_strip ''$TOKEN'') = ''TOKEN''" "py_strip ''123'' = ''123''"
    "py_strip ''MyPage'' = ''MyPage''"
    by (simp_all add: str_eval)
  have rest: "load_lines Map.empty 1 [''456|secret''] =
     ([\<lparr>page_id = ''456'', token = ''secret'', name = ''Page_456''\<rparr>], [Loaded ''Page_456''])"
    "load_lines Map.empty (Suc 1) [''456|secret''] =
     ([\<lparr>page_id = ''456'', token = ''secret'', name = ''Page_456''\<rparr>], [Loaded ''Page_456''])"
    by (simp_all add: load_line_def Let_def str_eval)
  from env_credential [OF sp nc d, of "[''TOKEN'' \<mapsto> ''abc'']" 1] v
  have 1: "load_line [''TOKEN'' \<mapsto> ''abc''] 1 ''123|$TOKEN|MyPage'' =
     (Some \<lparr>page_id = ''123'', token = ''abc'', name = ''MyPage''\<rparr>, [Loaded ''MyPage''])"
    by simp
  have e: "Map.empty (drop 1 (py_strip ''$TOKEN'')) = None \<or>
      Map.empty (drop 1 (py_strip ''$TOKEN'')) = Some []"
    by simp
  note inst = env_credential [OF sp nc d, of Map.empty 1 "[''456|secret'']" 1]
  from inst [THEN conjunct2, THEN mp, OF e]
  have 2: "load_line Map.empty 1 ''123|$TOKEN|MyPage'' = (None, [Env_not_set ''TOKEN''])"
    and 3: "load_lines Map.empty 1 [''123|$TOKEN|MyPage'', ''456|secret''] =
     ([\<lparr>page_id = ''456'', token = ''secret'', name = ''Page_456''\<rparr>],
      [Env_not_set ''TOKEN'', Loaded ''Page_456''])"
    by (simp_all only: v rest fst_conv snd_conv)
  from 1 2 3 show ?thesis by blast
qed

theorem env_credential_counterexample:
  "[''TOKEN'' \<mapsto> ''''] ''TOKEN'' = Some '''' \<and>
   load_line [''TOKEN'' \<mapsto> ''''] 1 ''123|$TOKEN|MyPage'' = (None, [Env_not_set ''TOKEN''])"
  by (simp add: load_line_def Let_def str_eval)

text \<open>
  C9. A variable set to the empty string is treated as an unset one: the whole registry
  and everything printed are the same in both cases, and a line whose credential field is
  \<open>$\<close> followed by the name of such a variable is dropped with the warning that the
  variable is not set.
\<close>

theorem env_empty_like_unset:
  "load_facebook_pages (environ(nm \<mapsto> [])) read_lines config_file =
     load_facebook_pages (environ(nm := None)) read_lines config_file \<and>
   (py_split CHR ''|'' (py_strip raw) = id_part # token_part # parts \<and>
    \<not> py_startswith (py_strip raw) ''#'' \<and> py_strip token_part = CHR ''$'' # nm \<longrightarrow>
      load_line (environ(nm \<mapsto> [])) n raw = (None, [Env_not_set nm]) \<and>
      load_line (environ(nm := None)) n raw = (None, [Env_not_set nm]))"
proof (intro conjI impI)
  show "load_facebook_pages (environ(nm \<mapsto> [])) read_lines config_file =
     load_facebook_pages (environ(nm := None)) read_lines config_file"
    by (simp add: load_facebook_pages_def load_lines_env_unset_empty split: option.splits)
next
  assume a: "py_split CHR ''|'' (py_strip raw) = id_part # token_part # parts \<and>
    \<not> py_startswith (py_strip raw) ''#'' \<and> py_strip token_part = CHR ''$'' # nm"
  then have d: "py_startswith (py_strip token_part) ''$''" "drop 1 (py_strip token_part) = nm"
    by (simp_all add: py_startswith_def)
  from a d load_line_env_empty [of raw id_part token_part parts "environ(nm \<mapsto> [])" n]
  show "load_line (environ(nm \<mapsto> [])) n raw = (None, [Env_not_set nm])" by simp
  from a d load_line_env_empty [of raw id_part token_part parts "environ(nm := None)" n]
  show "load_line (environ(nm := None)) n raw = (None, [Env_not_set nm])" by simp
qed

theorem env_empty_like_unset_witness:
  "load_line [''NAME'' \<mapsto> ''''] 3 ''42 | $NAME | Shop'' = (None, [Env_not_set ''NAME'']) \<and>
   load_line Map.empty 3 ''42 | $NAME | Shop'' = (None, [Env_not_set ''NAME''])"
proof -
  have a: "py_split CHR ''|'' (py_strip ''42 | $NAME | Shop'') = ''42 '' # '' $NAME '' # ['' Shop''] \<and>
    \<not> py_startswith (py_strip ''42 | $NAME | Shop'') ''#'' \<and> py_strip '' $NAME '' = CHR ''$'' # ''NAME''"
    by (simp add: str_eval)
  from env_empty_like_unset [of Map.empty "''NAME''" Map.empty "''x''" "''42 | $NAME | Shop''"
     "''42 ''" "'' $NAME ''" "['' Shop'']" 3] a
  show ?thesis by simp
qed

section \<open>Facts about the post loader\<close>








section \<open>Facts about the publisher\<close>

















end
